theory Spec2Isabelle
  imports Main
begin

section \<open>Python values, exceptions and the logger\<close>

text \<open>
  The module \<^verbatim>\<open>factory/credentialClass.py\<close> is modelled function by function.
  Python \<^verbatim>\<open>str\<close> and \<^verbatim>\<open>bytes\<close> are both character lists; where the
  source mixes the two types, a value carries its type as a constructor of \<open>pyval\<close>, so that
  Python's \<^verbatim>\<open>==\<close> (which is never true between a \<^verbatim>\<open>bytes\<close> and a
  \<^verbatim>\<open>str\<close>) is plain equality of \<open>pyval\<close>.
\<close>

type_synonym bytes = string
type_synonym path = string

datatype pyval = PyStr string | PyBytes bytes

text \<open>
  Every \<^verbatim>\<open>raise\<close> of the source, and every exception of a built-in it calls, is a value
  of \<open>error\<close>; a function that may raise returns \<open>error + 'a\<close> with \<open>Inl\<close> the exception.
  \<open>ExternalError\<close> is an exception of an external capability (the symmetric key), whose
  class the module does not fix.
\<close>

datatype error =
    CredentialError string
  | KeyError string
  | TypeError string
  | AttributeError string
  | ValueError string
  | OSError string
  | UnicodeDecodeError
  | ExternalError string

text \<open>
  \<^verbatim>\<open>logSupport.log\<close> is an append-only list of (level, message) pairs.
  \<^verbatim>\<open>log.exception\<close> logs at level ERROR. A message is the exact text where the source
  formats plain strings into it; where it formats the \<^verbatim>\<open>repr\<close> of a dictionary, a list
  or an object, the message is the format string itself.
\<close>

datatype level = DEBUG | WARNING | ERROR

type_synonym logger = "(level \<times> string) list"

section \<open>Credential-set validator: \<^verbatim>\<open>check_security_credentials\<close>\<close>

definition SUPPORTED_AUTH_METHODS :: "string list" where
  "SUPPORTED_AUTH_METHODS =
     [''grid_proxy'', ''cert_pair'', ''key_pair'', ''auth_file'', ''username_password'',
      ''idtoken'', ''scitoken'']"

text \<open>\<^verbatim>\<open>auth_method.split("+")\<close>: the pieces between the separators, empty pieces kept.\<close>

fun split_plus :: "string \<Rightarrow> string list" where
  "split_plus [] = [[]]"
| "split_plus (c # cs) =
     (if c = CHR ''+'' then [] # split_plus cs
      else (case split_plus cs of
              [] \<Rightarrow> [[c]]
            | w # ws \<Rightarrow> (c # w) # ws))"

definition relevant_keys :: "string set" where
  "relevant_keys =
     {''SubmitProxy'', ''GlideinProxy'', ''Username'', ''Password'', ''PublicCert'',
      ''PrivateCert'', ''PublicKey'', ''PrivateKey'', ''VMId'', ''VMType'', ''AuthFile''}"

definition msg_not_required :: "string \<Rightarrow> string \<Rightarrow> string" where
  "msg_not_required client_int_name entry_name =
     ''Request from '' @ client_int_name @ '' has credentials not required by the entry ''
       @ entry_name @ '', skipping request''"

definition msg_no_proxy :: "string \<Rightarrow> string \<Rightarrow> string" where
  "msg_no_proxy client_int_name entry_name =
     ''Request from client '' @ client_int_name
       @ '' did not provide a proxy as required by the entry '' @ entry_name
       @ '', skipping request''"

definition msg_no_glidein_proxy :: "string \<Rightarrow> string" where
  "msg_no_glidein_proxy client_int_name =
     ''Glidein proxy cannot be found for client '' @ client_int_name @ '', skipping request''"

definition msg_missing :: "string \<Rightarrow> string \<Rightarrow> string \<Rightarrow> string" where
  "msg_missing what client_int_name entry_name =
     ''Client '' @ [CHR 0x27] @ client_int_name @ [CHR 0x27] @ '' did not specify the '' @ what
       @ '' in the request, this is required by entry '' @ entry_name @ '', skipping ''"

text \<open>
  The check every non-proxy sub-method ends with: a credential-relevant key of the request
  outside \<open>valid_keys\<close> raises.
\<close>

definition only_valid_keys ::
  "string set \<Rightarrow> string set \<Rightarrow> string \<Rightarrow> string \<Rightarrow> error + unit" where
  "only_valid_keys params_keys valid_keys client_int_name entry_name =
     (let invalid_keys = relevant_keys - valid_keys
      in if params_keys \<inter> invalid_keys \<noteq> {}
         then Inl (CredentialError (msg_not_required client_int_name entry_name))
         else Inr ())"

definition check_security_credentials ::
  "string \<Rightarrow> (string \<rightharpoonup> pyval) \<Rightarrow> string \<Rightarrow> string \<Rightarrow> bool \<Rightarrow> logger
     \<Rightarrow> (error + unit) \<times> logger" where
  "check_security_credentials auth_method params client_int_name entry_name scitoken_passthru lg =
     (let auth_method_list = split_plus auth_method
      in if set auth_method_list \<inter> set SUPPORTED_AUTH_METHODS = {}
         then (Inr (),
               lg @ [(WARNING,
                      ''None of the supported auth methods %s in provided auth methods: %s'')])
         else
           (let params_keys = dom params
            in if ''scitoken'' \<in> set auth_method_list
                  \<or> (''frontend_scitoken'' \<in> dom params \<and> scitoken_passthru)
               then (Inr (), lg)
               else if ''grid_proxy'' \<in> set auth_method_list
               then
                 (if \<not> scitoken_passthru
                  then
                    (if ''SubmitProxy'' \<in> dom params
                     then (only_valid_keys params_keys {''SubmitProxy''}
                             client_int_name entry_name, lg)
                     else (Inl (CredentialError (msg_no_proxy client_int_name entry_name)), lg))
                  else (Inr (), lg))
               else
                 (if ''GlideinProxy'' \<notin> dom params \<and> \<not> scitoken_passthru
                  then (Inl (CredentialError (msg_no_glidein_proxy client_int_name)), lg)
                  else if ''cert_pair'' \<in> set auth_method_list
                  then
                    (if \<not> (''PublicCert'' \<in> dom params \<and> ''PrivateCert'' \<in> dom params)
                     then (Inl (CredentialError
                                  (msg_missing ''certificate pair'' client_int_name entry_name)),
                           lg)
                     else (only_valid_keys params_keys
                             {''GlideinProxy'', ''PublicCert'', ''PrivateCert'', ''VMId'',
                              ''VMType''}
                             client_int_name entry_name, lg))
                  else if ''key_pair'' \<in> set auth_method_list
                  then
                    (if \<not> (''PublicKey'' \<in> dom params \<and> ''PrivateKey'' \<in> dom params)
                     then (Inl (CredentialError
                                  (msg_missing ''key pair'' client_int_name entry_name)), lg)
                     else (only_valid_keys params_keys
                             {''GlideinProxy'', ''PublicKey'', ''PrivateKey'', ''VMId'',
                              ''VMType''}
                             client_int_name entry_name, lg))
                  else if ''auth_file'' \<in> set auth_method_list
                  then
                    (if \<not> (''AuthFile'' \<in> dom params)
                     then (Inl (CredentialError
                                  (msg_missing ''auth_file'' client_int_name entry_name)), lg)
                     else (only_valid_keys params_keys
                             {''GlideinProxy'', ''AuthFile'', ''VMId'', ''VMType''}
                             client_int_name entry_name, lg))
                  else if ''username_password'' \<in> set auth_method_list
                  then
                    (if \<not> (''Username'' \<in> dom params \<and> ''Password'' \<in> dom params)
                     then (Inl (CredentialError
                                  (msg_missing ''username and password'' client_int_name
                                     entry_name)), lg)
                     else (only_valid_keys params_keys
                             {''GlideinProxy'', ''Username'', ''Password'', ''VMId'', ''VMType''}
                             client_int_name entry_name, lg))
                  else
                    (Inl (CredentialError
                            (''Inconsistency between SUPPORTED_AUTH_METHODS and ''
                               @ ''check_security_credentials'')), lg))))"

section \<open>Credential model\<close>

text \<open>
  The six subclasses of the abstract class \<^verbatim>\<open>Credential\<close>, each with the fields its
  constructor stores, in the constructor's order. \<^verbatim>\<open>auth_file\<close> takes a
  \<^verbatim>\<open>rem_user\<close> argument and does not store it.
\<close>

record common_fields =
  sec_class :: string
  trust_dom :: string
  vm_id :: string
  vm_type :: string
  pilot_proxy :: string
  creation_script :: string
  update_frequency :: string

datatype credential =
    Scitoken (cred_loc: string) common_fields
  | Grid_proxy (cred_loc: string) common_fields
  | Cert_pair (cert: string) (certkey: string) common_fields
  | Key_pair (pub_key: string) (priv_key: string) common_fields (rem_user: string)
  | Username_password (cred_username: string) (cred_password: string) common_fields
  | Auth_file (cred_file: string) common_fields

fun get_cred_type :: "credential \<Rightarrow> string" where
  "get_cred_type (Scitoken _ _) = ''scitoken''"
| "get_cred_type (Grid_proxy _ _) = ''grid_proxy''"
| "get_cred_type (Cert_pair _ _ _) = ''cert_pair''"
| "get_cred_type (Key_pair _ _ _ _) = ''key_pair''"
| "get_cred_type (Username_password _ _ _) = ''username_password''"
| "get_cred_type (Auth_file _ _) = ''auth_file''"

text \<open>
  A value handed to the container \<^verbatim>\<open>Credentials\<close>: a string (a file name or an identity
  string, which is what the accessors of \<^verbatim>\<open>SubmitCredentials\<close> hand it) or an instance
  of \<^verbatim>\<open>Credential\<close>.
\<close>

datatype cred_value = StrValue string | CredValue credential

text \<open>
  \<^verbatim>\<open>Credentials.__setitem__\<close>: a value that is not an instance of
  \<^verbatim>\<open>Credential\<close> raises TypeError; otherwise the dictionary is updated.
\<close>

definition Credentials_setitem ::
  "(string \<rightharpoonup> credential) \<Rightarrow> string \<Rightarrow> cred_value \<Rightarrow> error + (string \<rightharpoonup> credential)" where
  "Credentials_setitem d k v =
     (case v of
        StrValue _ \<Rightarrow> Inl (TypeError ''Value must be a credential'')
      | CredValue c \<Rightarrow> Inr (d(k \<mapsto> c)))"

section \<open>The file system and the external capabilities\<close>

text \<open>
  The file system is a map from the paths of the regular files to their content, and the set
  \<open>denied\<close> of the paths the operating system refuses to create, to open for writing or to
  rename onto (a missing directory, a permission). The logger is part of the same state.
\<close>

record world =
  files :: "path \<rightharpoonup> bytes"
  denied :: "path set"
  logged :: logger

text \<open>
  What the module calls and is not part of it: \<^verbatim>\<open>bytes.decode("utf-8")\<close>, the decoding of
  a file read in text mode, the gzip stream (header, then body and trailer) and
  \<^verbatim>\<open>base64.b64encode\<close> of the standard library, and three functions of
  \<^verbatim>\<open>glideFactoryLib\<close>. A decoder returns \<open>None\<close> where Python raises
  UnicodeDecodeError.
\<close>

record externals =
  utf8_decode :: "bytes \<Rightarrow> string option"
  text_decode :: "bytes \<Rightarrow> string option"
  gzip_header :: bytes
  gzip_body :: "bytes \<Rightarrow> bytes"
  b64encode :: "bytes \<Rightarrow> bytes"
  is_str_safe :: "string \<Rightarrow> bool"
  escapeParam :: "string \<Rightarrow> string"
  get_client_proxies_dir :: "string \<Rightarrow> path"

text \<open>The symmetric key and the factory key: a method returns \<open>None\<close> where it raises.\<close>

record sym_key =
  decrypt_hex :: "string \<Rightarrow> bytes option"

record pub_key =
  extract_sym_key :: "string \<Rightarrow> sym_key option"

record frontend_descript =
  get_identity :: "string \<Rightarrow> string option"
  get_username :: "string \<Rightarrow> string \<Rightarrow> string option"

text \<open>
  \<^verbatim>\<open>glidein_descript.data\<close>: of its entries only \<^verbatim>\<open>PubKeyObj\<close> is read; the inner
  \<open>None\<close> is Python's \<^verbatim>\<open>None\<close>.
\<close>

record glidein_descript =
  data :: "string \<rightharpoonup> pub_key option"

text \<open>
  A ClassAd is a dictionary from strings to strings. Its keys are iterated in insertion order,
  so it is an association list; \<^verbatim>\<open>classad[k]\<close> raises KeyError on a missing key.
\<close>

type_synonym classad = "(string \<times> string) list"

definition getitem :: "classad \<Rightarrow> string \<Rightarrow> error + string" where
  "getitem d k = (case map_of d k of None \<Rightarrow> Inl (KeyError k) | Some v \<Rightarrow> Inr v)"

subsection \<open>Paths and system calls\<close>

text \<open>\<^verbatim>\<open>os.path.join\<close> of two components (posixpath).\<close>

definition path_join :: "path \<Rightarrow> path \<Rightarrow> path" where
  "path_join a b =
     (if take 1 b = ''/'' then b
      else if a = [] \<or> last a = CHR ''/'' then a @ b
      else a @ ''/'' @ b)"

definition isfile :: "path \<Rightarrow> world \<Rightarrow> bool" where
  "isfile p w = (files w p \<noteq> None)"

text \<open>
  What a call that opens a file returns: \<^verbatim>\<open>os.open\<close> returns a file descriptor, an
  \<^verbatim>\<open>int\<close>; the built-in \<^verbatim>\<open>open\<close> returns a file object (here always opened for
  reading, in text mode).
\<close>

datatype handle = Fd path | TextFile path

text \<open>
  \<^verbatim>\<open>os.open(p, os.O_CREAT | os.O_WRONLY, 0o600)\<close>: creates the file, empty, when it does
  not exist, keeps its content when it does (there is no \<^verbatim>\<open>O_TRUNC\<close>), and returns the
  descriptor.
\<close>

definition os_open :: "path \<Rightarrow> world \<Rightarrow> (error + handle) \<times> world" where
  "os_open p w =
     (if p \<in> denied w then (Inl (OSError p), w)
      else (Inr (Fd p),
            w\<lparr>files := (files w)(p \<mapsto> (case files w p of None \<Rightarrow> [] | Some c \<Rightarrow> c))\<rparr>))"

text \<open>The built-in \<^verbatim>\<open>open(p)\<close>: mode \<^verbatim>\<open>"r"\<close>, text.\<close>

definition open_read :: "path \<Rightarrow> world \<Rightarrow> error + handle" where
  "open_read p w = (if files w p = None then Inl (OSError p) else Inr (TextFile p))"

text \<open>
  The statement \<^verbatim>\<open>with h as file: body\<close>. An \<^verbatim>\<open>int\<close> has no
  \<^verbatim>\<open>__enter__\<close> and \<^verbatim>\<open>__exit__\<close>: the statement raises before the body runs
  (TypeError since Python 3.11, AttributeError before). On a file object the body runs.
\<close>

definition py_with ::
  "handle \<Rightarrow> (handle \<Rightarrow> world \<Rightarrow> (error + 'a) \<times> world) \<Rightarrow> world \<Rightarrow> (error + 'a) \<times> world" where
  "py_with h body w =
     (case h of
        Fd _ \<Rightarrow> (Inl (TypeError ''int object does not support the context manager protocol''), w)
      | TextFile _ \<Rightarrow> body h w)"

text \<open>
  \<^verbatim>\<open>file.write(data)\<close>: an \<^verbatim>\<open>int\<close> has no attribute \<^verbatim>\<open>write\<close>; a file
  object opened for reading is not writable.
\<close>

definition file_write :: "pyval \<Rightarrow> handle \<Rightarrow> world \<Rightarrow> (error + unit) \<times> world" where
  "file_write content h w =
     (case h of
        Fd _ \<Rightarrow> (Inl (AttributeError ''int object has no attribute write''), w)
      | TextFile _ \<Rightarrow> (Inl (OSError ''not writable''), w))"

text \<open>\<^verbatim>\<open>fl.read()\<close> on a text file: the whole content, decoded.\<close>

definition file_read :: "externals \<Rightarrow> handle \<Rightarrow> world \<Rightarrow> (error + string) \<times> world" where
  "file_read ext h w =
     (case h of
        Fd _ \<Rightarrow> (Inl (AttributeError ''int object has no attribute read''), w)
      | TextFile p \<Rightarrow>
          (case files w p of
             None \<Rightarrow> (Inl (OSError p), w)
           | Some b \<Rightarrow>
               (case text_decode ext b of
                  None \<Rightarrow> (Inl UnicodeDecodeError, w)
                | Some s \<Rightarrow> (Inr s, w))))"

definition os_remove :: "path \<Rightarrow> world \<Rightarrow> (error + unit) \<times> world" where
  "os_remove p w =
     (if files w p = None then (Inl (OSError p), w)
      else (Inr (), w\<lparr>files := (files w)(p := None)\<rparr>))"

definition shutil_copy2 :: "path \<Rightarrow> path \<Rightarrow> world \<Rightarrow> (error + unit) \<times> world" where
  "shutil_copy2 src dst w =
     (case files w src of
        None \<Rightarrow> (Inl (OSError src), w)
      | Some c \<Rightarrow>
          if src = dst \<or> dst \<in> denied w then (Inl (OSError dst), w)
          else (Inr (), w\<lparr>files := (files w)(dst \<mapsto> c)\<rparr>))"

definition os_rename :: "path \<Rightarrow> path \<Rightarrow> world \<Rightarrow> (error + unit) \<times> world" where
  "os_rename src dst w =
     (case files w src of
        None \<Rightarrow> (Inl (OSError src), w)
      | Some c \<Rightarrow>
          if dst \<in> denied w then (Inl (OSError dst), w)
          else (Inr (), w\<lparr>files := ((files w)(src := None))(dst \<mapsto> c)\<rparr>))"

text \<open>Appending a record to the logger of the world.\<close>

definition log_to :: "level \<Rightarrow> string \<Rightarrow> world \<Rightarrow> world" where
  "log_to l msg w = w\<lparr>logged := logged w @ [(l, msg)]\<rparr>"

section \<open>Credential store\<close>

subsection \<open>\<^verbatim>\<open>compress_credential\<close>\<close>

text \<open>
  \<^verbatim>\<open>io.StringIO\<close>: a text buffer. Its \<^verbatim>\<open>write\<close> takes a \<^verbatim>\<open>str\<close> and raises
  TypeError on anything else; \<^verbatim>\<open>getvalue\<close> raises ValueError once the buffer is closed.
\<close>

record stringio =
  buffer :: string
  closed :: bool

definition StringIO :: stringio where
  "StringIO = \<lparr>buffer = [], closed = False\<rparr>"

definition stringio_write :: "stringio \<Rightarrow> pyval \<Rightarrow> error + stringio" where
  "stringio_write f v =
     (case v of
        PyBytes _ \<Rightarrow> Inl (TypeError ''string argument expected, got bytes'')
      | PyStr s \<Rightarrow>
          if closed f then Inl (ValueError ''I/O operation on closed file'')
          else Inr (f\<lparr>buffer := buffer f @ s\<rparr>))"

definition stringio_getvalue :: "stringio \<Rightarrow> error + pyval" where
  "stringio_getvalue f =
     (if closed f then Inl (ValueError ''I/O operation on closed file'')
      else Inr (PyStr (buffer f)))"

text \<open>
  \<^verbatim>\<open>with gzip.GzipFile(fileobj=cfile, mode="wb") as f: f.write(credential_data)\<close>.
  The constructor writes the gzip header to \<open>fileobj\<close>, as bytes; \<^verbatim>\<open>f.write\<close> takes
  bytes; leaving the block writes the compressed body and the trailer, as bytes.
\<close>

definition gzip_write :: "externals \<Rightarrow> stringio \<Rightarrow> pyval \<Rightarrow> error + stringio" where
  "gzip_write ext fileobj credential_data =
     (case stringio_write fileobj (PyBytes (gzip_header ext)) of
        Inl e \<Rightarrow> Inl e
      | Inr fileobj1 \<Rightarrow>
          (case credential_data of
             PyStr _ \<Rightarrow> Inl (TypeError ''a bytes-like object is required, not str'')
           | PyBytes b \<Rightarrow> stringio_write fileobj1 (PyBytes (gzip_body ext b))))"

text \<open>\<^verbatim>\<open>base64.b64encode\<close> takes bytes.\<close>

definition py_b64encode :: "externals \<Rightarrow> pyval \<Rightarrow> error + bytes" where
  "py_b64encode ext v =
     (case v of
        PyStr _ \<Rightarrow> Inl (TypeError ''a bytes-like object is required, not str'')
      | PyBytes b \<Rightarrow> Inr (b64encode ext b))"

text \<open>
  The \<^verbatim>\<open>return\<close> of \<^verbatim>\<open>compress_credential\<close> stands after the outer
  \<^verbatim>\<open>with StringIO() as cfile\<close> block, which closes \<open>cfile\<close> when it is left.
\<close>

definition compress_credential :: "externals \<Rightarrow> pyval \<Rightarrow> error + bytes" where
  "compress_credential ext credential_data =
     (let cfile = StringIO
      in case gzip_write ext cfile credential_data of
           Inl e \<Rightarrow> Inl e
         | Inr cfile1 \<Rightarrow>
             (let cfile2 = cfile1\<lparr>closed := True\<rparr>
              in case stringio_getvalue cfile2 of
                   Inl e \<Rightarrow> Inl e
                 | Inr v \<Rightarrow> py_b64encode ext v))"

subsection \<open>\<^verbatim>\<open>safe_update\<close>\<close>

text \<open>A \<^verbatim>\<open>try\<close> whose handler is \<^verbatim>\<open>pass\<close>: the state after the call, its result dropped.\<close>

definition just_protect :: "(error + unit) \<times> world \<Rightarrow> world" where
  "just_protect r = snd r"

definition safe_update :: "externals \<Rightarrow> path \<Rightarrow> pyval \<Rightarrow> world \<Rightarrow> (error + unit) \<times> world" where
  "safe_update ext fname credential_data w =
     (if \<not> isfile fname w
      then
        (case os_open fname w of
           (Inl e, w1) \<Rightarrow> (Inl e, w1)
         | (Inr fd, w1) \<Rightarrow> py_with fd (file_write credential_data) w1)
      else
        (case open_read fname w of
           Inl e \<Rightarrow> (Inl e, w)
         | Inr fl \<Rightarrow>
             (case py_with fl (file_read ext) w of
                (Inl e, w0) \<Rightarrow> (Inl e, w0)
              | (Inr old_data, w0) \<Rightarrow>
                  if \<not> (credential_data = PyStr old_data)
                  then
                    (let w1 = just_protect (os_remove (fname @ ''.old'') w0)
                     in case os_open (fname @ ''.new'') w1 of
                          (Inl e, w2) \<Rightarrow> (Inl e, w2)
                        | (Inr fd, w2) \<Rightarrow>
                            (case py_with fd (file_write credential_data) w2 of
                               (Inl e, w3) \<Rightarrow> (Inl e, w3)
                             | (Inr _, w3) \<Rightarrow>
                                 (let w4 = just_protect
                                             (shutil_copy2 fname (fname @ ''.old'') w3)
                                  in os_rename (fname @ ''.new'') fname w4)))
                  else (Inr (), w0))))"

subsection \<open>\<^verbatim>\<open>update_credential_file\<close>\<close>

definition update_credential_file ::
  "externals \<Rightarrow> string \<Rightarrow> string \<Rightarrow> pyval \<Rightarrow> string \<Rightarrow> world
     \<Rightarrow> (error + path \<times> path) \<times> world" where
  "update_credential_file ext username client_id credential_data request_clientname w =
     (let proxy_dir = get_client_proxies_dir ext username;
          fname_short = ''credential_'' @ request_clientname @ ''_'' @ escapeParam ext client_id;
          fname = path_join proxy_dir fname_short;
          fname_compressed = fname @ ''_compressed'';
          w0 = log_to DEBUG (''updating credential file '' @ fname) w
      in case safe_update ext fname credential_data w0 of
           (Inl e, w1) \<Rightarrow> (Inl e, w1)
         | (Inr _, w1) \<Rightarrow>
             (case compress_credential ext credential_data of
                Inl e \<Rightarrow> (Inl e, w1)
              | Inr compressed_credential \<Rightarrow>
                  (case safe_update ext fname_compressed
                          (PyBytes (''glidein_credentials='' @ compressed_credential)) w1 of
                     (Inl e, w2) \<Rightarrow> (Inl e, w2)
                   | (Inr _, w2) \<Rightarrow> (Inr (fname, fname_compressed), w2))))"

section \<open>Frontend authenticator\<close>

definition get_key_obj :: "pub_key \<Rightarrow> classad \<Rightarrow> logger \<Rightarrow> (error + sym_key) \<times> logger" where
  "get_key_obj pub_key_obj classad lg =
     (case map_of classad ''ReqEncKeyCode'' of
        Some code \<Rightarrow>
          (case extract_sym_key pub_key_obj code of
             Some sym_key_obj \<Rightarrow> (Inr sym_key_obj, lg)
           | None \<Rightarrow>
               (Inl (CredentialError ''Symmetric key extraction failed.''),
                lg @ [(DEBUG, ''classad %s pub_key_obj %s''),
                      (ERROR, ''Symmetric key extraction failed.'')]))
      | None \<Rightarrow>
          (Inl (CredentialError ''Classad does not contain a key.  We cannot decrypt.''), lg))"

text \<open>
  The body of the two \<^verbatim>\<open>try\<close> blocks of \<^verbatim>\<open>validate_frontend\<close>:
  \<^verbatim>\<open>sym_key_obj.decrypt_hex(classad[field]).decode("utf-8")\<close>. The handler is a bare
  \<^verbatim>\<open>except\<close>, so a missing field, a failed decryption and a failed decoding are one
  outcome, \<open>None\<close>.
\<close>

definition decrypt_field :: "externals \<Rightarrow> sym_key \<Rightarrow> classad \<Rightarrow> string \<Rightarrow> string option" where
  "decrypt_field ext sym_key_obj classad field =
     (case map_of classad field of
        None \<Rightarrow> None
      | Some c \<Rightarrow>
          (case decrypt_hex sym_key_obj c of
             None \<Rightarrow> None
           | Some b \<Rightarrow> utf8_decode ext b))"

definition validate_frontend ::
  "externals \<Rightarrow> classad \<Rightarrow> frontend_descript \<Rightarrow> pub_key \<Rightarrow> logger
     \<Rightarrow> (error + sym_key \<times> string) \<times> logger" where
  "validate_frontend ext classad frontend_descript pub_key_obj lg =
     (case get_key_obj pub_key_obj classad lg of
        (Inl e, lg1) \<Rightarrow> (Inl e, lg1)
      | (Inr sym_key_obj, lg1) \<Rightarrow>
          (case getitem classad ''AuthenticatedIdentity'' of
             Inl e \<Rightarrow> (Inl e, lg1)
           | Inr authenticated_identity \<Rightarrow>
               (case decrypt_field ext sym_key_obj classad ''ReqEncIdentity'' of
                  None \<Rightarrow>
                    (Inl (CredentialError ''Cannot decrypt ReqEncIdentity.''),
                     lg1 @ [(ERROR, ''Cannot decrypt ReqEncIdentity.'')])
                | Some enc_identity \<Rightarrow>
                    if enc_identity \<noteq> authenticated_identity
                    then
                      (Inl (CredentialError
                              (''Client provided invalid ReqEncIdentity('' @ enc_identity
                                 @ ''!='' @ authenticated_identity
                                 @ ''). Skipping for security reasons.'')), lg1)
                    else
                      (case decrypt_field ext sym_key_obj classad
                              ''GlideinEncParamSecurityName'' of
                         None \<Rightarrow>
                           (Inl (CredentialError ''Cannot decrypt GlideinEncParamSecurityName.''),
                            lg1 @ [(ERROR, ''Cannot decrypt GlideinEncParamSecurityName.'')])
                       | Some frontend_sec_name \<Rightarrow>
                           (case get_identity frontend_descript frontend_sec_name of
                              None \<Rightarrow>
                                (Inl (CredentialError
                                        (''This frontend is not authorized by the factory.  ''
                                           @ ''Supplied security name: '' @ frontend_sec_name)),
                                 lg1)
                            | Some expected_identity \<Rightarrow>
                                if authenticated_identity \<noteq> expected_identity
                                then
                                  (Inl (CredentialError
                                          (''This frontend Authenticated Identity, does not ''
                                             @ ''match the expected identity'')), lg1)
                                else (Inr (sym_key_obj, frontend_sec_name), lg1))))))"

section \<open>Global credential processor\<close>

text \<open>\<^verbatim>\<open>re.compile("^GlideinEncParamSecurityClass").match\<close>: the key starts with the prefix.\<close>

definition sec_class_prefix :: string where
  "sec_class_prefix = ''GlideinEncParamSecurityClass''"

definition r_match :: "string \<Rightarrow> bool" where
  "r_match key = (take (length sec_class_prefix) key = sec_class_prefix)"

definition msg_no_mapping :: "string \<Rightarrow> string \<Rightarrow> string \<Rightarrow> string" where
  "msg_no_mapping cred_id client_name security_class =
     ''Cannot find a mapping for credential '' @ cred_id @ '' of client '' @ client_name
       @ ''. Skipping it. The securityclass field is set to '' @ security_class
       @ '' in the frontend. Please, verify the glideinWMS.xml and make sure it is mapped''
       @ '' correctly''"

text \<open>
  The \<^verbatim>\<open>for key in mkeys\<close> loop of \<^verbatim>\<open>process_global\<close>. An exception of the body
  leaves the loop; \<^verbatim>\<open>continue\<close> goes on with the remaining keys.
\<close>

fun process_keys ::
  "externals \<Rightarrow> classad \<Rightarrow> frontend_descript \<Rightarrow> sym_key \<Rightarrow> string \<Rightarrow> string \<Rightarrow> string list
     \<Rightarrow> world \<Rightarrow> (error + unit) \<times> world" where
  "process_keys ext classad frontend_descript sym_key_obj frontend_sec_name request_clientname
     [] w = (Inr (), w)"
| "process_keys ext classad frontend_descript sym_key_obj frontend_sec_name request_clientname
     (key # mkeys) w =
     (let prefix_len = length sec_class_prefix;
          cred_id = drop prefix_len key
      in case getitem classad (''GlideinEncParam'' @ cred_id) of
           Inl e \<Rightarrow> (Inl e, w)
         | Inr enc_data \<Rightarrow>
             (case decrypt_hex sym_key_obj enc_data of
                None \<Rightarrow> (Inl (ExternalError ''decrypt_hex''), w)
              | Some cred_data \<Rightarrow>
                  (case getitem classad key of
                     Inl e \<Rightarrow> (Inl e, w)
                   | Inr enc_class \<Rightarrow>
                       (case decrypt_hex sym_key_obj enc_class of
                          None \<Rightarrow> (Inl (ExternalError ''decrypt_hex''), w)
                        | Some b \<Rightarrow>
                            (case utf8_decode ext b of
                               None \<Rightarrow> (Inl UnicodeDecodeError, w)
                             | Some security_class \<Rightarrow>
                                 (case get_username frontend_descript frontend_sec_name
                                         security_class of
                                    None \<Rightarrow>
                                      process_keys ext classad frontend_descript sym_key_obj
                                        frontend_sec_name request_clientname mkeys
                                        (log_to ERROR
                                           (msg_no_mapping cred_id request_clientname
                                              security_class) w)
                                  | Some username \<Rightarrow>
                                      (case update_credential_file ext username cred_id
                                              (PyBytes cred_data) request_clientname
                                              (log_to DEBUG
                                                 (''updating credential for '' @ username) w) of
                                         (Inl e, w1) \<Rightarrow> (Inl e, w1)
                                       | (Inr _, w1) \<Rightarrow>
                                           process_keys ext classad frontend_descript
                                             sym_key_obj frontend_sec_name request_clientname
                                             mkeys w1)))))))"

text \<open>The body of the \<^verbatim>\<open>try\<close> block of \<^verbatim>\<open>process_global\<close>.\<close>

definition process_global_try ::
  "externals \<Rightarrow> classad \<Rightarrow> frontend_descript \<Rightarrow> pub_key \<Rightarrow> world \<Rightarrow> (error + unit) \<times> world" where
  "process_global_try ext classad frontend_descript pub_key_obj w =
     (case validate_frontend ext classad frontend_descript pub_key_obj (logged w) of
        (Inl e, lg1) \<Rightarrow> (Inl e, w\<lparr>logged := lg1\<rparr>)
      | (Inr (sym_key_obj, frontend_sec_name), lg1) \<Rightarrow>
          (case getitem classad ''ClientName'' of
             Inl e \<Rightarrow> (Inl e, w\<lparr>logged := lg1\<rparr>)
           | Inr request_clientname \<Rightarrow>
               (let mkeys = filter r_match (map fst classad)
                in process_keys ext classad frontend_descript sym_key_obj frontend_sec_name
                     request_clientname mkeys (w\<lparr>logged := lg1\<rparr>))))"

definition error_str_global :: string where
  "error_str_global = ''Error occurred processing the globals classads.''"

text \<open>
  \<^verbatim>\<open>process_global\<close>: the handler of its \<^verbatim>\<open>try\<close> is a bare \<^verbatim>\<open>except\<close>, which
  logs and raises CredentialError whatever the body raised.
\<close>

definition process_global ::
  "externals \<Rightarrow> classad \<Rightarrow> glidein_descript \<Rightarrow> frontend_descript \<Rightarrow> world
     \<Rightarrow> (error + unit) \<times> world" where
  "process_global ext classad glidein_descript frontend_descript w =
     (case data glidein_descript ''PubKeyObj'' of
        None \<Rightarrow> (Inl (KeyError ''PubKeyObj''), w)
      | Some None \<Rightarrow>
          (Inl (CredentialError ''Factory has no public key.  We cannot decrypt.''), w)
      | Some (Some pub_key_obj) \<Rightarrow>
          (case process_global_try ext classad frontend_descript pub_key_obj w of
             (Inl e, w1) \<Rightarrow>
               (Inl (CredentialError error_str_global),
                log_to ERROR error_str_global
                  (log_to DEBUG ''classad %s frontend_descript %s pub_key_obj %s'' w1))
           | (Inr u, w1) \<Rightarrow> (Inr u, w1)))"

section \<open>\<^verbatim>\<open>SubmitCredentials\<close>\<close>

record submit_credentials =
  username :: string
  security_class :: string
  tracking_id :: "string option"
  cred_dir :: string
  security_credentials :: "string \<rightharpoonup> credential"
  identity_credentials :: "string \<rightharpoonup> credential"

definition SubmitCredentials :: "string \<Rightarrow> string \<Rightarrow> submit_credentials" where
  "SubmitCredentials u c =
     \<lparr>username = u, security_class = c, tracking_id = None, cred_dir = [],
      security_credentials = Map.empty, identity_credentials = Map.empty\<rparr>"

text \<open>
  The three accessors return the value returned (\<^verbatim>\<open>True\<close> or \<^verbatim>\<open>False\<close>) and the
  object after the call, or the exception raised.
\<close>

definition add_security_credential ::
  "externals \<Rightarrow> world \<Rightarrow> submit_credentials \<Rightarrow> string \<Rightarrow> string \<Rightarrow> string
     \<Rightarrow> error + bool \<times> submit_credentials" where
  "add_security_credential ext w self cred_type filename prefix =
     (if \<not> is_str_safe ext filename then Inr (False, self)
      else
        (let cred_fname = path_join (cred_dir self) (prefix @ filename)
         in if \<not> isfile cred_fname w then Inr (False, self)
            else
              (case Credentials_setitem (security_credentials self) cred_type
                      (StrValue cred_fname) of
                 Inl e \<Rightarrow> Inl e
               | Inr d \<Rightarrow> Inr (True, self\<lparr>security_credentials := d\<rparr>))))"

definition add_factory_credential ::
  "world \<Rightarrow> submit_credentials \<Rightarrow> string \<Rightarrow> string \<Rightarrow> error + bool \<times> submit_credentials" where
  "add_factory_credential w self cred_type absfname =
     (if \<not> isfile absfname w then Inr (False, self)
      else
        (case Credentials_setitem (security_credentials self) cred_type (StrValue absfname) of
           Inl e \<Rightarrow> Inl e
         | Inr d \<Rightarrow> Inr (True, self\<lparr>security_credentials := d\<rparr>)))"

definition add_identity_credential ::
  "submit_credentials \<Rightarrow> string \<Rightarrow> cred_value \<Rightarrow> error + bool \<times> submit_credentials" where
  "add_identity_credential self cred_type cred_str =
     (case Credentials_setitem (identity_credentials self) cred_type cred_str of
        Inl e \<Rightarrow> Inl e
      | Inr d \<Rightarrow> Inr (True, self\<lparr>identity_credentials := d\<rparr>))"

section \<open>A concrete factory\<close>

text \<open>
  One instance of every external capability, on which the functions above are evaluated.
  The gzip body, the base64 encoding and the escaping of \<^verbatim>\<open>glideFactoryLib\<close> are
  stand-ins (the identity), a file name is safe when it has no slash, and the credential
  directory of a user \<open>u\<close> is \<open>/creds/u\<close>.
  The decoder accepts ASCII, where UTF-8 and the locale's encoding agree with it; the key
  decrypts the texts that start with \<open>hex:\<close>; the policy knows one frontend,
  \<open>frontend1\<close>, with identity \<open>fe@host\<close>, and maps its security class \<open>classA\<close> to the
  user \<open>u1\<close>.
\<close>

definition ascii_decode :: "bytes \<Rightarrow> string option" where
  "ascii_decode b = (if list_all (\<lambda>c. \<not> digit7 c) b then Some b else None)"

definition demo_ext :: externals where
  "demo_ext =
     \<lparr>utf8_decode = ascii_decode, text_decode = ascii_decode,
      gzip_header = [CHR 0x1F, CHR 0x8B], gzip_body = (\<lambda>b. b), b64encode = (\<lambda>b. b),
      is_str_safe = list_all (\<lambda>c. c \<noteq> CHR ''/''), escapeParam = (\<lambda>s. s),
      get_client_proxies_dir = (\<lambda>u. ''/creds/'' @ u)\<rparr>"

definition demo_key :: sym_key where
  "demo_key = \<lparr>decrypt_hex = (\<lambda>c. if take 4 c = ''hex:'' then Some (drop 4 c) else None)\<rparr>"

definition demo_pub :: pub_key where
  "demo_pub = \<lparr>extract_sym_key = (\<lambda>c. if c = ''keycode'' then Some demo_key else None)\<rparr>"

definition demo_glidein :: glidein_descript where
  "demo_glidein = \<lparr>data = [''PubKeyObj'' \<mapsto> Some demo_pub]\<rparr>"

definition demo_frontend :: frontend_descript where
  "demo_frontend =
     \<lparr>get_identity = (\<lambda>n. if n = ''frontend1'' then Some ''fe@host'' else None),
      get_username = (\<lambda>n c. if n = ''frontend1'' \<and> c = ''classA'' then Some ''u1'' else None)\<rparr>"

definition empty_world :: world where
  "empty_world = \<lparr>files = Map.empty, denied = {}, logged = []\<rparr>"

text \<open>A request of \<open>frontend1\<close> with one embedded credential, of security class \<open>classA\<close>.\<close>

definition classad_one :: classad where
  "classad_one =
     [(''ClientName'', ''client1''), (''AuthenticatedIdentity'', ''fe@host''),
      (''ReqEncKeyCode'', ''keycode''), (''ReqEncIdentity'', ''hex:fe@host''),
      (''GlideinEncParamSecurityName'', ''hex:frontend1''),
      (''GlideinEncParamSecurityClass7'', ''hex:classA''),
      (''GlideinEncParam7'', ''hex:secret'')]"

text \<open>The same request with an encrypted identity that is not the authenticated one.\<close>

definition classad_forged :: classad where
  "classad_forged =
     [(''ClientName'', ''client1''), (''AuthenticatedIdentity'', ''fe@host''),
      (''ReqEncKeyCode'', ''keycode''), (''ReqEncIdentity'', ''hex:other@host''),
      (''GlideinEncParamSecurityName'', ''hex:frontend1''),
      (''GlideinEncParamSecurityClass7'', ''hex:classA''),
      (''GlideinEncParam7'', ''hex:secret'')]"

text \<open>A request under a security name the policy does not know.\<close>

definition classad_unknown :: classad where
  "classad_unknown =
     [(''ClientName'', ''client1''), (''AuthenticatedIdentity'', ''fe@host''),
      (''ReqEncKeyCode'', ''keycode''), (''ReqEncIdentity'', ''hex:fe@host''),
      (''GlideinEncParamSecurityName'', ''hex:frontend9'')]"

text \<open>
  A request with two embedded credentials: the security class of the first, \<open>classB\<close>, maps to
  no user; the security class of the second, \<open>classA\<close>, maps to \<open>u1\<close>.
\<close>

definition classad_two :: classad where
  "classad_two =
     [(''ClientName'', ''client1''), (''AuthenticatedIdentity'', ''fe@host''),
      (''ReqEncKeyCode'', ''keycode''), (''ReqEncIdentity'', ''hex:fe@host''),
      (''GlideinEncParamSecurityName'', ''hex:frontend1''),
      (''GlideinEncParamSecurityClass1'', ''hex:classB''),
      (''GlideinEncParam1'', ''hex:secret1''),
      (''GlideinEncParamSecurityClass2'', ''hex:classA''),
      (''GlideinEncParam2'', ''hex:secret2'')]"

section \<open>Properties of the validator\<close>

lemma grid_proxy_supported:
  "''grid_proxy'' \<in> set ms \<Longrightarrow> set ms \<inter> set SUPPORTED_AUTH_METHODS \<noteq> {}"
  by (auto simp: SUPPORTED_AUTH_METHODS_def)

lemma cert_pair_supported:
  "''cert_pair'' \<in> set ms \<Longrightarrow> set ms \<inter> set SUPPORTED_AUTH_METHODS \<noteq> {}"
  by (auto simp: SUPPORTED_AUTH_METHODS_def)

text \<open>
  Claim C3. With scitoken passthrough disabled, \<^verbatim>\<open>scitoken\<close> not declared and
  \<^verbatim>\<open>grid_proxy\<close> among the declared methods, the validator accepts a request whose
  only credential-relevant key is \<^verbatim>\<open>SubmitProxy\<close>, raises CredentialError when
  \<^verbatim>\<open>SubmitProxy\<close> comes with any other credential-relevant key, and raises
  CredentialError when \<^verbatim>\<open>SubmitProxy\<close> is absent.
\<close>

theorem check_grid_proxy:
  assumes "\<not> scitoken_passthru"
    and "''scitoken'' \<notin> set (split_plus auth_method)"
    and "''grid_proxy'' \<in> set (split_plus auth_method)"
  shows "(dom params \<inter> relevant_keys = {''SubmitProxy''} \<longrightarrow>
            check_security_credentials auth_method params client entry scitoken_passthru lg
              = (Inr (), lg))
       \<and> (''SubmitProxy'' \<in> dom params
            \<and> (\<exists>k. k \<in> dom params \<and> k \<in> relevant_keys \<and> k \<noteq> ''SubmitProxy'') \<longrightarrow>
            check_security_credentials auth_method params client entry scitoken_passthru lg
              = (Inl (CredentialError (msg_not_required client entry)), lg))
       \<and> (''SubmitProxy'' \<notin> dom params \<longrightarrow>
            check_security_credentials auth_method params client entry scitoken_passthru lg
              = (Inl (CredentialError (msg_no_proxy client entry)), lg))"
proof -
  have sup: "set (split_plus auth_method) \<inter> set SUPPORTED_AUTH_METHODS \<noteq> {}"
    using assms(3) by (rule grid_proxy_supported)
  have a: "dom params \<inter> relevant_keys = {''SubmitProxy''} \<Longrightarrow>
             ''SubmitProxy'' \<in> dom params \<and> dom params \<inter> (relevant_keys - {''SubmitProxy''}) = {}"
    by blast
  have b: "\<And>k. k \<in> dom params \<Longrightarrow> k \<in> relevant_keys \<Longrightarrow> k \<noteq> ''SubmitProxy'' \<Longrightarrow>
             dom params \<inter> (relevant_keys - {''SubmitProxy''}) \<noteq> {}"
    by blast
  show ?thesis
    using assms sup a b
    by (auto simp: check_security_credentials_def only_valid_keys_def Let_def)
qed

text \<open>
  The three requests of the specification: \<^verbatim>\<open>{SubmitProxy}\<close> is accepted,
  \<^verbatim>\<open>{SubmitProxy, Username}\<close> and \<^verbatim>\<open>{Username, Password}\<close> are rejected.
\<close>

theorem check_grid_proxy_witness:
  "check_security_credentials ''grid_proxy'' [''SubmitProxy'' \<mapsto> PyStr ''p''] ''fe'' ''entry1'' False []
     = (Inr (), [])
   \<and> check_security_credentials ''grid_proxy''
        [''SubmitProxy'' \<mapsto> PyStr ''p'', ''Username'' \<mapsto> PyStr ''u''] ''fe'' ''entry1'' False []
     = (Inl (CredentialError (msg_not_required ''fe'' ''entry1'')), [])
   \<and> check_security_credentials ''grid_proxy''
        [''Username'' \<mapsto> PyStr ''u'', ''Password'' \<mapsto> PyStr ''pw''] ''fe'' ''entry1'' False []
     = (Inl (CredentialError (msg_no_proxy ''fe'' ''entry1'')), [])"
proof -
  have h1: "\<not> False" by simp
  have h2: "''scitoken'' \<notin> set (split_plus ''grid_proxy'')" by simp
  have h3: "''grid_proxy'' \<in> set (split_plus ''grid_proxy'')" by simp
  have d1: "dom [''SubmitProxy'' \<mapsto> PyStr ''p''] \<inter> relevant_keys = {''SubmitProxy''}"
    by (simp add: relevant_keys_def)
  have d2: "''SubmitProxy'' \<in> dom [''SubmitProxy'' \<mapsto> PyStr ''p'', ''Username'' \<mapsto> PyStr ''u'']
            \<and> (\<exists>k. k \<in> dom [''SubmitProxy'' \<mapsto> PyStr ''p'', ''Username'' \<mapsto> PyStr ''u'']
                  \<and> k \<in> relevant_keys \<and> k \<noteq> ''SubmitProxy'')"
    by (rule conjI, simp, rule exI [of _ "''Username''"], simp add: relevant_keys_def)
  have d3: "''SubmitProxy'' \<notin> dom [''Username'' \<mapsto> PyStr ''u'', ''Password'' \<mapsto> PyStr ''pw'']"
    by simp
  show ?thesis
    using check_grid_proxy [OF h1 h2 h3, of "[''SubmitProxy'' \<mapsto> PyStr ''p'']" "''fe''" "''entry1''" "[]"]
          check_grid_proxy [OF h1 h2 h3, of "[''SubmitProxy'' \<mapsto> PyStr ''p'', ''Username'' \<mapsto> PyStr ''u'']" "''fe''" "''entry1''" "[]"]
          check_grid_proxy [OF h1 h2 h3, of "[''Username'' \<mapsto> PyStr ''u'', ''Password'' \<mapsto> PyStr ''pw'']" "''fe''" "''entry1''" "[]"]
          d1 d2 d3
    by blast
qed


lemma check_cert_pair_unfold:
  assumes "\<not> scitoken_passthru"
    and "''cert_pair'' \<in> set (split_plus auth_method)"
    and "''scitoken'' \<notin> set (split_plus auth_method)"
    and "''grid_proxy'' \<notin> set (split_plus auth_method)"
  shows "check_security_credentials auth_method params client entry scitoken_passthru lg =
           (if ''GlideinProxy'' \<notin> dom params
            then (Inl (CredentialError (msg_no_glidein_proxy client)), lg)
            else if \<not> (''PublicCert'' \<in> dom params \<and> ''PrivateCert'' \<in> dom params)
            then (Inl (CredentialError (msg_missing ''certificate pair'' client entry)), lg)
            else (only_valid_keys (dom params)
                    {''GlideinProxy'', ''PublicCert'', ''PrivateCert'', ''VMId'', ''VMType''}
                    client entry, lg))"
proof -
  have sup: "set (split_plus auth_method) \<inter> set SUPPORTED_AUTH_METHODS \<noteq> {}"
    using assms(2) by (rule cert_pair_supported)
  show ?thesis
    unfolding check_security_credentials_def Let_def
    using assms sup by simp
qed

lemma only_valid_keys_ok:
  "params_keys \<inter> relevant_keys \<subseteq> valid_keys \<Longrightarrow>
     only_valid_keys params_keys valid_keys client entry = Inr ()"
proof -
  assume "params_keys \<inter> relevant_keys \<subseteq> valid_keys"
  then have "params_keys \<inter> (relevant_keys - valid_keys) = {}" by blast
  then show ?thesis unfolding only_valid_keys_def Let_def by simp
qed

lemma only_valid_keys_bad:
  "k \<in> params_keys \<Longrightarrow> k \<in> relevant_keys \<Longrightarrow> k \<notin> valid_keys \<Longrightarrow>
     only_valid_keys params_keys valid_keys client entry
       = Inl (CredentialError (msg_not_required client entry))"
proof -
  assume "k \<in> params_keys" "k \<in> relevant_keys" "k \<notin> valid_keys"
  then have "params_keys \<inter> (relevant_keys - valid_keys) \<noteq> {}" by blast
  then show ?thesis unfolding only_valid_keys_def Let_def by simp
qed


text \<open>
  Claim C4. With passthrough disabled and \<^verbatim>\<open>cert_pair\<close> declared (neither
  \<^verbatim>\<open>scitoken\<close> nor \<^verbatim>\<open>grid_proxy\<close>), the validator raises CredentialError when
  \<^verbatim>\<open>GlideinProxy\<close> is absent; accepts a request holding \<^verbatim>\<open>GlideinProxy\<close>,
  \<^verbatim>\<open>PublicCert\<close> and \<^verbatim>\<open>PrivateCert\<close> whose credential-relevant keys all lie in the
  allow-list (these three, \<^verbatim>\<open>VMId\<close> and \<^verbatim>\<open>VMType\<close>); raises CredentialError when
  \<^verbatim>\<open>PrivateCert\<close> is missing; and raises CredentialError when a credential-relevant key
  outside the allow-list is present.
\<close>

theorem check_cert_pair:
  assumes "\<not> scitoken_passthru"
    and "''cert_pair'' \<in> set (split_plus auth_method)"
    and "''scitoken'' \<notin> set (split_plus auth_method)"
    and "''grid_proxy'' \<notin> set (split_plus auth_method)"
  shows "(''GlideinProxy'' \<notin> dom params \<longrightarrow>
            check_security_credentials auth_method params client entry scitoken_passthru lg
              = (Inl (CredentialError (msg_no_glidein_proxy client)), lg))
       \<and> (''GlideinProxy'' \<in> dom params \<and> ''PublicCert'' \<in> dom params
            \<and> ''PrivateCert'' \<in> dom params
            \<and> dom params \<inter> relevant_keys
                \<subseteq> {''GlideinProxy'', ''PublicCert'', ''PrivateCert'', ''VMId'', ''VMType''} \<longrightarrow>
            check_security_credentials auth_method params client entry scitoken_passthru lg
              = (Inr (), lg))
       \<and> (''PrivateCert'' \<notin> dom params \<longrightarrow>
            (\<exists>msg. check_security_credentials auth_method params client entry
                      scitoken_passthru lg = (Inl (CredentialError msg), lg)))
       \<and> ((\<exists>k. k \<in> dom params \<and> k \<in> relevant_keys
                \<and> k \<notin> {''GlideinProxy'', ''PublicCert'', ''PrivateCert'', ''VMId'', ''VMType''}) \<longrightarrow>
            (\<exists>msg. check_security_credentials auth_method params client entry
                      scitoken_passthru lg = (Inl (CredentialError msg), lg)))"
proof (intro conjI impI)
  note u = check_cert_pair_unfold [OF assms, of params client entry lg]
  show "check_security_credentials auth_method params client entry scitoken_passthru lg
          = (Inl (CredentialError (msg_no_glidein_proxy client)), lg)"
    if "''GlideinProxy'' \<notin> dom params"
    using that by (simp add: u)
  show "check_security_credentials auth_method params client entry scitoken_passthru lg
          = (Inr (), lg)"
    if h: "''GlideinProxy'' \<in> dom params \<and> ''PublicCert'' \<in> dom params
            \<and> ''PrivateCert'' \<in> dom params
            \<and> dom params \<inter> relevant_keys
                \<subseteq> {''GlideinProxy'', ''PublicCert'', ''PrivateCert'', ''VMId'', ''VMType''}"
  proof -
    from h have sub: "dom params \<inter> relevant_keys
                \<subseteq> {''GlideinProxy'', ''PublicCert'', ''PrivateCert'', ''VMId'', ''VMType''}"
      by (elim conjE)
    have ok: "only_valid_keys (dom params)
            {''GlideinProxy'', ''PublicCert'', ''PrivateCert'', ''VMId'', ''VMType''}
            client entry = Inr ()"
      using sub by (rule only_valid_keys_ok)
    from h have m: "''GlideinProxy'' \<in> dom params" "''PublicCert'' \<in> dom params"
      "''PrivateCert'' \<in> dom params" by simp_all
    show ?thesis using m ok by (simp add: u)
  qed
  show "\<exists>msg. check_security_credentials auth_method params client entry
                      scitoken_passthru lg = (Inl (CredentialError msg), lg)"
    if "''PrivateCert'' \<notin> dom params"
  proof (cases "''GlideinProxy'' \<in> dom params")
    case True
    with that show ?thesis by (simp add: u)
  next
    case False
    then show ?thesis by (simp add: u)
  qed
  show "\<exists>msg. check_security_credentials auth_method params client entry
                      scitoken_passthru lg = (Inl (CredentialError msg), lg)"
    if "\<exists>k. k \<in> dom params \<and> k \<in> relevant_keys
                \<and> k \<notin> {''GlideinProxy'', ''PublicCert'', ''PrivateCert'', ''VMId'', ''VMType''}"
  proof -
    from that obtain k where k: "k \<in> dom params" "k \<in> relevant_keys"
      "k \<notin> {''GlideinProxy'', ''PublicCert'', ''PrivateCert'', ''VMId'', ''VMType''}"
      by (elim exE conjE)
    have bad: "only_valid_keys (dom params)
            {''GlideinProxy'', ''PublicCert'', ''PrivateCert'', ''VMId'', ''VMType''}
            client entry = Inl (CredentialError (msg_not_required client entry))"
      using k by (rule only_valid_keys_bad)
    show ?thesis
      by (cases "''GlideinProxy'' \<in> dom params"; cases "''PublicCert'' \<in> dom params";
          cases "''PrivateCert'' \<in> dom params")
         (simp_all add: u bad)
  qed
qed


text \<open>
  The requests of the specification: without \<^verbatim>\<open>GlideinProxy\<close> rejected, the exact
  triple accepted, \<^verbatim>\<open>PrivateCert\<close> missing rejected, an extra \<^verbatim>\<open>Username\<close>
  rejected.
\<close>

theorem check_cert_pair_witness:
  "check_security_credentials ''cert_pair''
        [''PublicCert'' \<mapsto> PyStr ''c'', ''PrivateCert'' \<mapsto> PyStr ''k''] ''fe'' ''entry1'' False []
     = (Inl (CredentialError (msg_no_glidein_proxy ''fe'')), [])
   \<and> check_security_credentials ''cert_pair''
        [''GlideinProxy'' \<mapsto> PyStr ''g'', ''PublicCert'' \<mapsto> PyStr ''c'',
         ''PrivateCert'' \<mapsto> PyStr ''k''] ''fe'' ''entry1'' False []
     = (Inr (), [])
   \<and> (\<exists>msg. check_security_credentials ''cert_pair''
        [''GlideinProxy'' \<mapsto> PyStr ''g'', ''PublicCert'' \<mapsto> PyStr ''c''] ''fe'' ''entry1'' False []
     = (Inl (CredentialError msg), []))
   \<and> (\<exists>msg. check_security_credentials ''cert_pair''
        [''GlideinProxy'' \<mapsto> PyStr ''g'', ''PublicCert'' \<mapsto> PyStr ''c'',
         ''PrivateCert'' \<mapsto> PyStr ''k'', ''Username'' \<mapsto> PyStr ''u''] ''fe'' ''entry1'' False []
     = (Inl (CredentialError msg), []))"
proof -
  have h1: "\<not> False" by simp
  have h2: "''cert_pair'' \<in> set (split_plus ''cert_pair'')" by simp
  have h3: "''scitoken'' \<notin> set (split_plus ''cert_pair'')" by simp
  have h4: "''grid_proxy'' \<notin> set (split_plus ''cert_pair'')" by simp
  note t = check_cert_pair [OF h1 h2 h3 h4, of _ "''fe''" "''entry1''" "[]"]
  have d1: "''GlideinProxy'' \<notin> dom [''PublicCert'' \<mapsto> PyStr ''c'', ''PrivateCert'' \<mapsto> PyStr ''k'']"
    by simp
  have d2: "''GlideinProxy'' \<in> dom [''GlideinProxy'' \<mapsto> PyStr ''g'', ''PublicCert'' \<mapsto> PyStr ''c'',
         ''PrivateCert'' \<mapsto> PyStr ''k'']
     \<and> ''PublicCert'' \<in> dom [''GlideinProxy'' \<mapsto> PyStr ''g'', ''PublicCert'' \<mapsto> PyStr ''c'',
         ''PrivateCert'' \<mapsto> PyStr ''k'']
     \<and> ''PrivateCert'' \<in> dom [''GlideinProxy'' \<mapsto> PyStr ''g'', ''PublicCert'' \<mapsto> PyStr ''c'',
         ''PrivateCert'' \<mapsto> PyStr ''k'']
     \<and> dom [''GlideinProxy'' \<mapsto> PyStr ''g'', ''PublicCert'' \<mapsto> PyStr ''c'',
         ''PrivateCert'' \<mapsto> PyStr ''k''] \<inter> relevant_keys
          \<subseteq> {''GlideinProxy'', ''PublicCert'', ''PrivateCert'', ''VMId'', ''VMType''}"
    by (simp add: relevant_keys_def)
  have d3: "''PrivateCert'' \<notin> dom [''GlideinProxy'' \<mapsto> PyStr ''g'', ''PublicCert'' \<mapsto> PyStr ''c'']"
    by simp
  have d4: "\<exists>k. k \<in> dom [''GlideinProxy'' \<mapsto> PyStr ''g'', ''PublicCert'' \<mapsto> PyStr ''c'',
         ''PrivateCert'' \<mapsto> PyStr ''k'', ''Username'' \<mapsto> PyStr ''u'']
       \<and> k \<in> relevant_keys
       \<and> k \<notin> {''GlideinProxy'', ''PublicCert'', ''PrivateCert'', ''VMId'', ''VMType''}"
    by (rule exI [of _ "''Username''"]) (simp add: relevant_keys_def)
  from t [THEN conjunct1, rule_format, OF d1]
       t [THEN conjunct2, THEN conjunct1, rule_format, OF d2]
       t [THEN conjunct2, THEN conjunct2, THEN conjunct1, rule_format, OF d3]
       t [THEN conjunct2, THEN conjunct2, THEN conjunct2, rule_format, OF d4]
  show ?thesis by (intro conjI)
qed

section \<open>Evaluating the concrete factory\<close>

lemmas demo_defs =
  demo_ext_def demo_key_def demo_pub_def demo_glidein_def demo_frontend_def empty_world_def
  ascii_decode_def

lemmas store_defs =
  safe_update_def isfile_def os_open_def open_read_def py_with_def file_write_def file_read_def
  os_remove_def shutil_copy2_def os_rename_def just_protect_def log_to_def path_join_def
  update_credential_file_def

lemmas auth_defs =
  validate_frontend_def get_key_obj_def getitem_def decrypt_field_def

lemmas global_defs =
  process_global_def process_global_try_def r_match_def sec_class_prefix_def
  error_str_global_def msg_no_mapping_def

lemma validate_forged:
  "fst (validate_frontend demo_ext classad_forged demo_frontend demo_pub (logged empty_world))
     = Inl (CredentialError
        ''Client provided invalid ReqEncIdentity(other@host!=fe@host). Skipping for security reasons.'')"
  by (simp add: auth_defs demo_defs classad_forged_def)

lemma validate_one:
  "fst (validate_frontend demo_ext classad_one demo_frontend demo_pub (logged empty_world))
     = Inr (demo_key, ''frontend1'')"
  by (simp add: auth_defs demo_defs classad_one_def)

lemma process_one:
  "process_global demo_ext classad_one demo_glidein demo_frontend empty_world
     = (Inl (CredentialError error_str_global),
        \<lparr>files = [''/creds/u1/credential_client1_7'' \<mapsto> []], denied = {},
         logged = [(DEBUG, ''updating credential for u1''),
                   (DEBUG, ''updating credential file /creds/u1/credential_client1_7''),
                   (DEBUG, ''classad %s frontend_descript %s pub_key_obj %s''),
                   (ERROR, error_str_global)]\<rparr>)"
  by (simp add: global_defs auth_defs store_defs demo_defs classad_one_def Let_def)


section \<open>Properties of the processor and of the authenticator\<close>

lemma files_log_to: "files (log_to l msg w) = files w"
  by (simp add: log_to_def)

lemma process_global_try_auth_failure:
  assumes "fst (validate_frontend ext classad fd pk (logged w)) = Inl e"
  shows "fst (process_global_try ext classad fd pk w) = Inl e
       \<and> files (snd (process_global_try ext classad fd pk w)) = files w"
proof -
  obtain r lg1 where v: "validate_frontend ext classad fd pk (logged w) = (r, lg1)"
    by (cases "validate_frontend ext classad fd pk (logged w)")
  with assms have "r = Inl e" by simp
  with v show ?thesis by (simp add: process_global_try_def)
qed

lemma process_global_failed_try:
  assumes "data gd ''PubKeyObj'' = Some (Some pk)"
    and "fst (process_global_try ext classad fd pk w) = Inl e"
  shows "fst (process_global ext classad gd fd w) = Inl (CredentialError error_str_global)
       \<and> files (snd (process_global ext classad gd fd w))
           = files (snd (process_global_try ext classad fd pk w))"
proof -
  obtain r w1 where t: "process_global_try ext classad fd pk w = (r, w1)"
    by (cases "process_global_try ext classad fd pk w")
  with assms(2) have "r = Inl e" by simp
  with t assms(1) show ?thesis by (simp add: process_global_def files_log_to)
qed

text \<open>
  Claim C1. When \<^verbatim>\<open>validate_frontend\<close> fails on a ClassAd, \<^verbatim>\<open>process_global\<close>
  raises one CredentialError and leaves every file as it was; and whenever
  \<^verbatim>\<open>process_global\<close> changes a file, \<^verbatim>\<open>validate_frontend\<close> has returned
  successfully for that ClassAd.
\<close>

theorem process_global_auth_failure:
  "(data gd ''PubKeyObj'' = Some (Some pk)
      \<and> fst (validate_frontend ext classad fd pk (logged w)) = Inl e \<longrightarrow>
        fst (process_global ext classad gd fd w) = Inl (CredentialError error_str_global)
      \<and> files (snd (process_global ext classad gd fd w)) = files w)
   \<and> (files (snd (process_global ext classad gd fd w)) \<noteq> files w \<longrightarrow>
        (\<exists>pk sk sn. data gd ''PubKeyObj'' = Some (Some pk)
           \<and> fst (validate_frontend ext classad fd pk (logged w)) = Inr (sk, sn)))"
proof (intro conjI impI)
  assume a: "data gd ''PubKeyObj'' = Some (Some pk)
      \<and> fst (validate_frontend ext classad fd pk (logged w)) = Inl e"
  then have t: "fst (process_global_try ext classad fd pk w) = Inl e"
    and f: "files (snd (process_global_try ext classad fd pk w)) = files w"
    using process_global_try_auth_failure [of ext classad fd pk w e] by simp_all
  from a have d: "data gd ''PubKeyObj'' = Some (Some pk)" by simp
  from process_global_failed_try [OF d t] f
  show "fst (process_global ext classad gd fd w) = Inl (CredentialError error_str_global)"
    and "files (snd (process_global ext classad gd fd w)) = files w"
    by simp_all
next
  assume ch: "files (snd (process_global ext classad gd fd w)) \<noteq> files w"
  show "\<exists>pk sk sn. data gd ''PubKeyObj'' = Some (Some pk)
           \<and> fst (validate_frontend ext classad fd pk (logged w)) = Inr (sk, sn)"
  proof (cases "data gd ''PubKeyObj''")
    case None
    with ch show ?thesis by (simp add: process_global_def)
  next
    case (Some o1)
    show ?thesis
    proof (cases o1)
      case None
      with Some ch show ?thesis by (simp add: process_global_def)
    next
      case (Some pk')
      with \<open>data gd ''PubKeyObj'' = Some o1\<close>
      have d: "data gd ''PubKeyObj'' = Some (Some pk')" by simp
      show ?thesis
      proof (cases "fst (validate_frontend ext classad fd pk' (logged w))")
        case (Inl e')
        from process_global_try_auth_failure [OF Inl]
        have t: "fst (process_global_try ext classad fd pk' w) = Inl e'"
          and f: "files (snd (process_global_try ext classad fd pk' w)) = files w"
          by simp_all
        from process_global_failed_try [OF d t] f ch show ?thesis by simp
      next
        case (Inr p)
        obtain sk sn where "p = (sk, sn)" by (cases p)
        with Inr d show ?thesis by blast
      qed
    qed
  qed
qed


text \<open>
  On the forged request nothing is written; on the genuine request a file changes, and the
  authentication has succeeded.
\<close>

theorem process_global_auth_failure_witness:
  "fst (process_global demo_ext classad_forged demo_glidein demo_frontend empty_world)
     = Inl (CredentialError error_str_global)
   \<and> files (snd (process_global demo_ext classad_forged demo_glidein demo_frontend empty_world))
     = files empty_world
   \<and> (\<exists>pk sk sn. data demo_glidein ''PubKeyObj'' = Some (Some pk)
         \<and> fst (validate_frontend demo_ext classad_one demo_frontend pk (logged empty_world))
             = Inr (sk, sn))"
proof -
  have h1: "data demo_glidein ''PubKeyObj'' = Some (Some demo_pub)
      \<and> fst (validate_frontend demo_ext classad_forged demo_frontend demo_pub
                (logged empty_world))
          = Inl (CredentialError
        ''Client provided invalid ReqEncIdentity(other@host!=fe@host). Skipping for security reasons.'')"
    using validate_forged by (simp add: demo_glidein_def)
  have h2: "files (snd (process_global demo_ext classad_one demo_glidein demo_frontend
                          empty_world)) \<noteq> files empty_world"
  proof -
    have "files empty_world = Map.empty" by (simp add: empty_world_def)
    then show ?thesis by (simp add: process_one)
  qed
  note t1 = process_global_auth_failure
    [where gd = demo_glidein and pk = demo_pub and ext = demo_ext and classad = classad_forged
       and fd = demo_frontend and w = empty_world, THEN conjunct1, rule_format, OF h1]
  note t2 = process_global_auth_failure
    [where gd = demo_glidein and ext = demo_ext and classad = classad_one
       and fd = demo_frontend and w = empty_world, THEN conjunct2, rule_format, OF h2]
  from t1 t2 show ?thesis by (intro conjI) simp_all
qed

lemma validate_frontend_after_key:
  assumes "fst (get_key_obj pk classad lg) = Inr sk"
    and "map_of classad ''AuthenticatedIdentity'' = Some ai"
    and "decrypt_field ext sk classad ''ReqEncIdentity'' = Some ei"
  shows "fst (validate_frontend ext classad fd pk lg) =
           (if ei \<noteq> ai
            then Inl (CredentialError
                        (''Client provided invalid ReqEncIdentity('' @ ei @ ''!='' @ ai
                           @ ''). Skipping for security reasons.''))
            else (case decrypt_field ext sk classad ''GlideinEncParamSecurityName'' of
                    None \<Rightarrow> Inl (CredentialError ''Cannot decrypt GlideinEncParamSecurityName.'')
                  | Some sn \<Rightarrow>
                      (case get_identity fd sn of
                         None \<Rightarrow>
                           Inl (CredentialError
                                  (''This frontend is not authorized by the factory.  ''
                                     @ ''Supplied security name: '' @ sn))
                       | Some expected \<Rightarrow>
                           if ai \<noteq> expected
                           then Inl (CredentialError
                                       (''This frontend Authenticated Identity, does not ''
                                          @ ''match the expected identity''))
                           else Inr (sk, sn))))"
proof -
  obtain r lg1 where g: "get_key_obj pk classad lg = (r, lg1)"
    by (cases "get_key_obj pk classad lg")
  with assms(1) have r: "r = Inr sk" by simp
  show ?thesis
    using assms(2,3) g r
    by (simp add: validate_frontend_def getitem_def split: option.splits)
qed

text \<open>
  Claim C2. Once the key is extracted and the encrypted identity decrypted:
  if the decrypted \<^verbatim>\<open>ReqEncIdentity\<close> differs from \<^verbatim>\<open>AuthenticatedIdentity\<close>,
  \<^verbatim>\<open>validate_frontend\<close> raises CredentialError and returns no key; if the policy has
  no expected identity for the decrypted security name, or one that differs from
  \<^verbatim>\<open>AuthenticatedIdentity\<close>, it raises CredentialError too; otherwise it returns the
  symmetric key together with the decrypted security name.
\<close>

theorem validate_frontend_identity_checks:
  assumes "fst (get_key_obj pk classad lg) = Inr sk"
    and "map_of classad ''AuthenticatedIdentity'' = Some ai"
    and "decrypt_field ext sk classad ''ReqEncIdentity'' = Some ei"
  shows "(ei \<noteq> ai \<longrightarrow>
            (\<exists>msg. fst (validate_frontend ext classad fd pk lg) = Inl (CredentialError msg)))
       \<and> (\<forall>sn. decrypt_field ext sk classad ''GlideinEncParamSecurityName'' = Some sn \<longrightarrow>
            (get_identity fd sn = None \<or> get_identity fd sn \<noteq> Some ai \<longrightarrow>
               (\<exists>msg. fst (validate_frontend ext classad fd pk lg) = Inl (CredentialError msg)))
          \<and> (ei = ai \<and> get_identity fd sn = Some ai \<longrightarrow>
               fst (validate_frontend ext classad fd pk lg) = Inr (sk, sn)))"
proof -
  note u = validate_frontend_after_key [OF assms, of fd]
  show ?thesis
    by (auto simp: u split: option.splits)
qed


text \<open>
  The forged request and the request under an unknown security name are rejected, the genuine
  request yields the key and the name \<open>frontend1\<close>.
\<close>

theorem validate_frontend_identity_checks_witness:
  "(\<exists>msg. fst (validate_frontend demo_ext classad_forged demo_frontend demo_pub [])
            = Inl (CredentialError msg))
   \<and> (\<exists>msg. fst (validate_frontend demo_ext classad_unknown demo_frontend demo_pub [])
            = Inl (CredentialError msg))
   \<and> fst (validate_frontend demo_ext classad_one demo_frontend demo_pub [])
       = Inr (demo_key, ''frontend1'')"
proof -
  have k1: "fst (get_key_obj demo_pub classad_forged []) = Inr demo_key"
    by (simp add: get_key_obj_def demo_pub_def classad_forged_def)
  have a1: "map_of classad_forged ''AuthenticatedIdentity'' = Some ''fe@host''"
    by (simp add: classad_forged_def)
  have e1: "decrypt_field demo_ext demo_key classad_forged ''ReqEncIdentity''
              = Some ''other@host''"
    by (simp add: decrypt_field_def demo_defs classad_forged_def)
  have n1: "''other@host'' \<noteq> ''fe@host''" by simp
  have k2: "fst (get_key_obj demo_pub classad_unknown []) = Inr demo_key"
    by (simp add: get_key_obj_def demo_pub_def classad_unknown_def)
  have a2: "map_of classad_unknown ''AuthenticatedIdentity'' = Some ''fe@host''"
    by (simp add: classad_unknown_def)
  have e2: "decrypt_field demo_ext demo_key classad_unknown ''ReqEncIdentity''
              = Some ''fe@host''"
    by (simp add: decrypt_field_def demo_defs classad_unknown_def)
  have s2: "decrypt_field demo_ext demo_key classad_unknown ''GlideinEncParamSecurityName''
              = Some ''frontend9''"
    by (simp add: decrypt_field_def demo_defs classad_unknown_def)
  have i2: "get_identity demo_frontend ''frontend9'' = None
              \<or> get_identity demo_frontend ''frontend9'' \<noteq> Some ''fe@host''"
    by (simp add: demo_frontend_def)
  have k3: "fst (get_key_obj demo_pub classad_one []) = Inr demo_key"
    by (simp add: get_key_obj_def demo_pub_def classad_one_def)
  have a3: "map_of classad_one ''AuthenticatedIdentity'' = Some ''fe@host''"
    by (simp add: classad_one_def)
  have e3: "decrypt_field demo_ext demo_key classad_one ''ReqEncIdentity'' = Some ''fe@host''"
    by (simp add: decrypt_field_def demo_defs classad_one_def)
  have s3: "decrypt_field demo_ext demo_key classad_one ''GlideinEncParamSecurityName''
              = Some ''frontend1''"
    by (simp add: decrypt_field_def demo_defs classad_one_def)
  have i3: "''fe@host'' = ''fe@host'' \<and> get_identity demo_frontend ''frontend1'' = Some ''fe@host''"
    by (simp add: demo_frontend_def)
  note t1 = validate_frontend_identity_checks [OF k1 a1 e1, of demo_frontend,
              THEN conjunct1, rule_format, OF n1]
  note t2 = validate_frontend_identity_checks [OF k2 a2 e2, of demo_frontend,
              THEN conjunct2, rule_format, OF s2, THEN conjunct1, rule_format, OF i2]
  note t3 = validate_frontend_identity_checks [OF k3 a3 e3, of demo_frontend,
              THEN conjunct2, rule_format, OF s3, THEN conjunct2, rule_format, OF i3]
  from t1 t2 t3 show ?thesis by (intro conjI)
qed

section \<open>Where the source departs from its specification\<close>

subsection \<open>The accessors of \<^verbatim>\<open>SubmitCredentials\<close>\<close>

lemma Credentials_setitem_str:
  "Credentials_setitem d k (StrValue s) = Inl (TypeError ''Value must be a credential'')"
  by (simp add: Credentials_setitem_def)

lemma add_identity_credential_str:
  "add_identity_credential self cred_type (StrValue s)
     = Inl (TypeError ''Value must be a credential'')"
  by (simp add: add_identity_credential_def Credentials_setitem_str)

lemma add_factory_credential_never_True:
  "add_factory_credential w self cred_type absfname \<noteq> Inr (True, self')"
  by (simp add: add_factory_credential_def Credentials_setitem_str)

lemma add_security_credential_never_True:
  "add_security_credential ext w self cred_type filename prefix \<noteq> Inr (True, self')"
  by (simp add: add_security_credential_def Credentials_setitem_str Let_def)

text \<open>
  Claim C5 says that the three accessors never raise and return \<^verbatim>\<open>True\<close> on success.
  The maps they write to are instances of \<^verbatim>\<open>Credentials\<close>, whose
  \<^verbatim>\<open>__setitem__\<close> raises TypeError on a value that is not a
  \<^verbatim>\<open>Credential\<close>, and the accessors store strings. Each of them raises TypeError on
  its success path: \<^verbatim>\<open>add_identity_credential\<close> on an identity string,
  \<^verbatim>\<open>add_factory_credential\<close> on the path of an existing file,
  \<^verbatim>\<open>add_security_credential\<close> on the safe name of an existing file.
\<close>

theorem accessors_raise:
  "add_identity_credential (SubmitCredentials ''u1'' ''classA'') ''frontend'' (StrValue ''fe1'')
     = Inl (TypeError ''Value must be a credential'')
   \<and> add_factory_credential
         \<lparr>files = [''/etc/proxy'' \<mapsto> ''x''], denied = {}, logged = []\<rparr>
         (SubmitCredentials ''u1'' ''classA'') ''grid_proxy'' ''/etc/proxy''
     = Inl (TypeError ''Value must be a credential'')
   \<and> add_security_credential demo_ext
         \<lparr>files = [''/creds/u1/proxy1'' \<mapsto> ''x''], denied = {}, logged = []\<rparr>
         ((SubmitCredentials ''u1'' ''classA'')\<lparr>cred_dir := ''/creds/u1''\<rparr>)
         ''grid_proxy'' ''proxy1'' []
     = Inl (TypeError ''Value must be a credential'')"
  by (simp add: add_identity_credential_def add_factory_credential_def
        add_security_credential_def Credentials_setitem_def SubmitCredentials_def
        isfile_def path_join_def demo_ext_def)

subsection \<open>\<^verbatim>\<open>compress_credential\<close>\<close>

lemma stringio_write_bytes:
  "stringio_write f (PyBytes b) = Inl (TypeError ''string argument expected, got bytes'')"
  by (simp add: stringio_write_def)

lemma compress_credential_raises:
  "compress_credential ext credential_data
     = Inl (TypeError ''string argument expected, got bytes'')"
  by (simp add: compress_credential_def gzip_write_def stringio_write_bytes)

text \<open>
  Claim C8 says that \<^verbatim>\<open>compress_credential(b)\<close> returns the base64 encoding of the
  gzip compression of \<open>b\<close>. The buffer the gzip stream is written to is a
  \<^verbatim>\<open>StringIO\<close>, which takes text only: on the bytes \<open>abc\<close> (and, by
  \<open>compress_credential_raises\<close>, on every input) the call raises TypeError and returns
  nothing.
\<close>

theorem compress_credential_abc:
  "compress_credential demo_ext (PyBytes ''abc'')
     = Inl (TypeError ''string argument expected, got bytes'')"
  by (simp add: compress_credential_def gzip_write_def stringio_write_def)

subsection \<open>\<^verbatim>\<open>safe_update\<close>\<close>

lemma py_with_fd:
  "py_with (Fd p) body w
     = (Inl (TypeError ''int object does not support the context manager protocol''), w)"
  by (simp add: py_with_def)

lemma safe_update_bytes_raises:
  "\<exists>e. fst (safe_update ext fname (PyBytes b) w) = Inl e"
proof (cases "files w fname")
  case None
  then show ?thesis
    by (simp add: safe_update_def isfile_def os_open_def py_with_fd)
next
  case (Some c)
  then show ?thesis
    by (cases "text_decode ext c")
       (simp_all add: safe_update_def isfile_def open_read_def py_with_def file_read_def
          os_open_def Let_def)
qed

lemma safe_update_str_noop:
  assumes "files w fname = Some c" and "text_decode ext c = Some s"
  shows "safe_update ext fname (PyStr s) w = (Inr (), w)"
  using assms
  by (simp add: safe_update_def isfile_def open_read_def py_with_def file_read_def)


lemma update_credential_file_raises:
  "\<exists>e. fst (update_credential_file ext user client_id (PyBytes b) request_clientname w)
         = Inl e"
proof -
  let ?fname = "path_join (get_client_proxies_dir ext user)
                  (''credential_'' @ request_clientname @ ''_'' @ escapeParam ext client_id)"
  let ?w0 = "log_to DEBUG (''updating credential file '' @ ?fname) w"
  obtain e where e: "fst (safe_update ext ?fname (PyBytes b) ?w0) = Inl e"
    using safe_update_bytes_raises by blast
  obtain r w1 where s: "safe_update ext ?fname (PyBytes b) ?w0 = (r, w1)"
    by (cases "safe_update ext ?fname (PyBytes b) ?w0")
  with e have "r = Inl e" by simp
  with s show ?thesis by (simp add: update_credential_file_def Let_def)
qed

text \<open>
  Claim C6 says that \<^verbatim>\<open>safe_update(path, X)\<close> is a no-op when the file already
  contains \<open>X\<close>. The file is read in text mode, so the old content is a \<^verbatim>\<open>str\<close>,
  and the new content is \<^verbatim>\<open>bytes\<close>: the two are never equal. On a file holding
  \<open>abc\<close> and the content \<open>abc\<close>, the call takes the update branch, creates the sibling
  \<open>.new\<close> (empty) and raises TypeError at \<^verbatim>\<open>with os.open(...) as file\<close>.
\<close>

theorem safe_update_same_content:
  "safe_update demo_ext ''/d/f'' (PyBytes ''abc'')
     \<lparr>files = [''/d/f'' \<mapsto> ''abc''], denied = {}, logged = []\<rparr>
   = (Inl (TypeError ''int object does not support the context manager protocol''),
      \<lparr>files = [''/d/f'' \<mapsto> ''abc'', ''/d/f.new'' \<mapsto> []], denied = {}, logged = []\<rparr>)"
  by (simp add: store_defs demo_defs Let_def)

text \<open>
  Claim C7 says that after \<^verbatim>\<open>safe_update(path, Y)\<close> on a file holding \<open>X \<noteq> Y\<close> the
  path contains \<open>Y\<close>, \<open>.old\<close> contains \<open>X\<close> and no \<open>.new\<close> remains.
  \<^verbatim>\<open>os.open\<close> returns an \<^verbatim>\<open>int\<close>, which is no context manager: the
  \<^verbatim>\<open>with\<close> statement raises TypeError once \<open>.new\<close> is created, before anything is
  written, copied or renamed. On a file holding \<open>abc\<close>, a stale \<open>.old\<close> and the content
  \<open>xyz\<close>: the path still holds \<open>abc\<close>, \<open>.old\<close> is deleted, an empty \<open>.new\<close> remains.
\<close>

theorem safe_update_new_content:
  "safe_update demo_ext ''/d/f'' (PyBytes ''xyz'')
     \<lparr>files = [''/d/f'' \<mapsto> ''abc'', ''/d/f.old'' \<mapsto> ''000''], denied = {}, logged = []\<rparr>
   = (Inl (TypeError ''int object does not support the context manager protocol''),
      \<lparr>files = [''/d/f'' \<mapsto> ''abc'', ''/d/f.new'' \<mapsto> []], denied = {}, logged = []\<rparr>)"
  by (simp add: store_defs demo_defs Let_def fun_upd_twist)

subsection \<open>\<^verbatim>\<open>process_global\<close>\<close>

text \<open>The skip itself: an id whose security class maps to no user is logged and passed over.\<close>

lemma process_keys_skip:
  assumes "map_of classad (''GlideinEncParam'' @ drop (length sec_class_prefix) key) = Some c1"
    and "decrypt_hex sk c1 = Some cred_data"
    and "map_of classad key = Some c2"
    and "decrypt_hex sk c2 = Some b"
    and "utf8_decode ext b = Some sclass"
    and "get_username fd sec_name sclass = None"
  shows "process_keys ext classad fd sk sec_name client (key # mkeys) w
           = process_keys ext classad fd sk sec_name client mkeys
               (log_to ERROR
                  (msg_no_mapping (drop (length sec_class_prefix) key) client sclass) w)"
  using assms by (simp add: getitem_def Let_def)

text \<open>
  Claim C9 says that when one embedded id maps to no user, the other ids are still persisted
  and the call returns normally. On the request with two ids, the first without a user and the
  second mapped to \<open>u1\<close>: the first is logged and skipped, then persisting the second raises
  in \<^verbatim>\<open>safe_update\<close> (an empty file is left, no compressed file), and the call raises
  CredentialError.
\<close>

theorem process_global_two_ids:
  "process_global demo_ext classad_two demo_glidein demo_frontend empty_world
     = (Inl (CredentialError error_str_global),
        \<lparr>files = [''/creds/u1/credential_client1_2'' \<mapsto> []], denied = {},
         logged = [(ERROR, msg_no_mapping ''1'' ''client1'' ''classB''),
                   (DEBUG, ''updating credential for u1''),
                   (DEBUG, ''updating credential file /creds/u1/credential_client1_2''),
                   (DEBUG, ''classad %s frontend_descript %s pub_key_obj %s''),
                   (ERROR, error_str_global)]\<rparr>)"
  by (simp add: global_defs auth_defs store_defs demo_defs classad_two_def Let_def)





end
